theory Spec2Isabelle
  imports Main
begin

section \<open>The S4TK workspace: configuration lifecycle\<close>

text \<open>
  A shallow embedding of \<^verbatim>\<open>src/workspace/s4tk-workspace.ts\<close> (the class
  \<^verbatim>\<open>_S4TKWorkspace\<close> and its module-level helpers) and of
  \<^verbatim>\<open>src/contributions/commands/isURI.ts\<close>.

  The TypeScript is asynchronous, but runs on one event loop. Each operation is embedded
  as one function from the world before the call to the completion value of the call and
  the world after it, with the effects applied in the order the source starts them. Two
  operations whose suspension points interleave are outside this embedding.
\<close>

subsection \<open>Completions and exceptions\<close>

text \<open>
  The three kinds of thrown value that \<^verbatim>\<open>loadConfig\<close> tells apart in its
  \<^verbatim>\<open>catch\<close>: a \<^verbatim>\<open>SyntaxError\<close> (read through \<^verbatim>\<open>err.message\<close>), a
  \<^verbatim>\<open>ValidationError\<close> of the jsonschema package (read through \<^verbatim>\<open>err.stack\<close>),
  and anything else, kept as the text that the template literal renders it to.
\<close>

datatype exn =
    SyntaxError (message: string)
  | ValidationError (stack: string)
  | OtherError string

datatype 'a completion = Returned 'a | Thrown exn

subsection \<open>Host data: URIs, notifications, the file system\<close>

record Uri =
  scheme :: string
  path :: string

datatype severity = Information | Warning | Error

record notification =
  severity :: severity
  msg :: string
  items :: "string list"

datatype fs_entry = File string | Directory


record FileDeleteEvent =
  files :: "Uri list"

subsection \<open>The configuration\<close>

text \<open>
  Modelled from the spec: the type \<^verbatim>\<open>S4TKConfig\<close> is declared in
  \<^verbatim>\<open>@models/s4tk-config\<close>, which is not among the sources. The workspace reads and
  writes only \<^verbatim>\<open>stringTables\<close> and \<^verbatim>\<open>stringTables.defaultPath\<close>; the
  spec gives "an optional string-tables sub-record containing at least a defaultPath
  field". Every other top-level field lives in the extension part of the record.
\<close>

record StringTablesConfig =
  defaultPath :: string

record S4TKConfig =
  stringTables :: "StringTablesConfig option"

subsection \<open>Imports of the module\<close>

text \<open>
  What \<^verbatim>\<open>s4tk-workspace.ts\<close> imports from modules that are not among the sources, taken
  as parameters: the default document, the parser with its validation (which throws),
  the serialiser, the content \<^verbatim>\<open>StringTableJson.generateRandomContent()\<close> returns in
  this run, and the host's platform-dependent getter \<^verbatim>\<open>Uri.fsPath\<close>.
\<close>

record 'c module_imports =
  DEFAULT_CONFIG_CONTENT :: string
  parseConfig :: "string \<Rightarrow> 'c completion"
  stringifyConfig :: "'c \<Rightarrow> string"
  generateRandomContent :: string
  fsPath :: "Uri \<Rightarrow> string"

text \<open>
  The file name constant is imported too; the source spells its value out in the message
  of \<^verbatim>\<open>loadConfig\<close> ("No 's4tk.config.json' file was found at the root of this
  project.") and in its documentation comment.
\<close>

definition CONFIG_FILENAME :: string where
  "CONFIG_FILENAME = ''s4tk.config.json''"

subsection \<open>The world\<close>

text \<open>
  The private slot \<^verbatim>\<open>_config\<close> of the singleton, and the parts of the host that the
  workspace reads or writes: the context keys set through the \<^verbatim>\<open>setContext\<close> command,
  the workspace folders (each by its \<^verbatim>\<open>uri\<close>), the file system, the messages shown
  so far (oldest first), the documents shown and the external links opened.
\<close>

record 'c world =
  config :: "'c option"
  contextKeys :: "string \<rightharpoonup> bool"
  workspaceFolders :: "Uri list option"
  fs :: "Uri \<rightharpoonup> fs_entry"
  notifications :: "notification list"
  shownDocuments :: "Uri list"
  openedLinks :: "string list"

definition initial_world :: "Uri list option \<Rightarrow> (Uri \<rightharpoonup> fs_entry) \<Rightarrow> 'c world" where
  "initial_world folders store =
     \<lparr>config = None, contextKeys = Map.empty, workspaceFolders = folders, fs = store,
      notifications = [], shownDocuments = [], openedLinks = []\<rparr>"

subsection \<open>Host operations\<close>

definition endsWith :: "string \<Rightarrow> string \<Rightarrow> bool" where
  "endsWith s t = (length t \<le> length s \<and> drop (length s - length t) s = t)"

text \<open>
  \<^verbatim>\<open>vscode.Uri.joinPath\<close> for plain segment names: the segments are appended to the
  path, separated by one slash. (The host also resolves dots and repeated slashes inside
  a segment; the workspace passes literal file and directory names only.)
\<close>

definition joinSegment :: "string \<Rightarrow> string \<Rightarrow> string" where
  "joinSegment p s = (if p \<noteq> [] \<and> last p = CHR ''/'' then p @ s else p @ ''/'' @ s)"

definition joinPath :: "Uri \<Rightarrow> string list \<Rightarrow> Uri" where
  "joinPath base segments = base\<lparr>path := foldl joinSegment (path base) segments\<rparr>"

text \<open>JavaScript's \<^verbatim>\<open>Boolean(x)\<close> on an optional object: an object is truthy.\<close>

definition Boolean :: "'a option \<Rightarrow> bool" where
  "Boolean x = (case x of None \<Rightarrow> False | Some _ \<Rightarrow> True)"

definition showMessage :: "severity \<Rightarrow> string \<Rightarrow> string list \<Rightarrow> 'c world \<Rightarrow> 'c world" where
  "showMessage sev body buttons w =
     w\<lparr>notifications := notifications w @ [\<lparr>severity = sev, msg = body, items = buttons\<rparr>]\<rparr>"

definition showInformationMessage :: "string \<Rightarrow> string list \<Rightarrow> 'c world \<Rightarrow> 'c world" where
  "showInformationMessage = showMessage Information"

definition showWarningMessage :: "string \<Rightarrow> string list \<Rightarrow> 'c world \<Rightarrow> 'c world" where
  "showWarningMessage = showMessage Warning"

definition showErrorMessage :: "string \<Rightarrow> string list \<Rightarrow> 'c world \<Rightarrow> 'c world" where
  "showErrorMessage = showMessage Error"

definition setContext :: "string \<Rightarrow> bool \<Rightarrow> 'c world \<Rightarrow> 'c world" where
  "setContext key v w = w\<lparr>contextKeys := (contextKeys w)(key \<mapsto> v)\<rparr>"

definition showTextDocument :: "Uri \<Rightarrow> 'c world \<Rightarrow> 'c world" where
  "showTextDocument u w = w\<lparr>shownDocuments := shownDocuments w @ [u]\<rparr>"


text \<open>
  \<^verbatim>\<open>vscode.workspace.fs\<close>: reading a file that is missing or is a directory rejects;
  writing over a directory rejects and changes nothing; creating a directory that is
  there already changes nothing.
\<close>

definition readFile :: "Uri \<Rightarrow> 'c world \<Rightarrow> string completion" where
  "readFile u w =
     (case fs w u of
        Some (File content) \<Rightarrow> Returned content
      | Some Directory \<Rightarrow> Thrown (OtherError ''FileIsADirectory (FileSystemError)'')
      | None \<Rightarrow> Thrown (OtherError ''FileNotFound (FileSystemError)''))"

definition writeFile :: "Uri \<Rightarrow> string \<Rightarrow> 'c world \<Rightarrow> unit completion \<times> 'c world" where
  "writeFile u content w =
     (case fs w u of
        Some Directory \<Rightarrow> (Thrown (OtherError ''FileIsADirectory (FileSystemError)''), w)
      | _ \<Rightarrow> (Returned (), w\<lparr>fs := (fs w)(u \<mapsto> File content)\<rparr>))"

definition createDirectory :: "Uri \<Rightarrow> 'c world \<Rightarrow> 'c world" where
  "createDirectory u w =
     (case fs w u of
        None \<Rightarrow> w\<lparr>fs := (fs w)(u \<mapsto> Directory)\<rparr>
      | Some _ \<Rightarrow> w)"

text \<open>
  Modelled from the spec: \<^verbatim>\<open>fileExists\<close> of \<^verbatim>\<open>@helpers/utils\<close> is not among the
  sources; the spec gives the file store's \<^verbatim>\<open>exists(path) -> bool\<close>.
\<close>

definition fileExists :: "Uri \<Rightarrow> 'c world \<Rightarrow> bool" where
  "fileExists u w = (fs w u \<noteq> None)"

subsection \<open>The workspace\<close>

definition GET_HELP_BUTTON :: string where
  "GET_HELP_BUTTON = ''Get Help''"

definition REPORT_PROBLEM_BUTTON :: string where
  "REPORT_PROBLEM_BUTTON = ''Report Problem''"

definition RELOAD_CONFIG_BUTTON :: string where
  "RELOAD_CONFIG_BUTTON = ''Reload Config''"

definition CREATE_PROJECT_BUTTON :: string where
  "CREATE_PROJECT_BUTTON = ''Create S4TK Project''"

definition ACTIVE_CONTEXT_KEY :: string where
  "ACTIVE_CONTEXT_KEY = ''s4tk.workspace.active''"

text \<open>The setter \<^verbatim>\<open>set config(config)\<close> and the getter \<^verbatim>\<open>get active()\<close>.\<close>

definition set_config :: "'c option \<Rightarrow> 'c world \<Rightarrow> 'c world" where
  "set_config c w = setContext ACTIVE_CONTEXT_KEY (Boolean c) (w\<lparr>config := c\<rparr>)"

definition active :: "'c world \<Rightarrow> bool" where
  "active w = Boolean (config w)"

record ConfigUriInfo =
  uri :: "Uri option"
  exists :: bool

text \<open>The expression \<^verbatim>\<open>vscode.workspace.workspaceFolders?.[0]?.uri\<close>.\<close>

definition firstFolderUri :: "'c world \<Rightarrow> Uri option" where
  "firstFolderUri w = (case workspaceFolders w of Some (r # _) \<Rightarrow> Some r | _ \<Rightarrow> None)"

definition findConfig :: "'c world \<Rightarrow> ConfigUriInfo" where
  "findConfig w =
     (case firstFolderUri w of
        None \<Rightarrow> \<lparr>uri = None, exists = False\<rparr>
      | Some rootUri \<Rightarrow>
          (let u = joinPath rootUri [CONFIG_FILENAME]
           in \<lparr>uri = Some u, exists = fileExists u w\<rparr>))"

record LoadOptions =
  showNoConfigError :: "bool option"

definition wantsNoConfigError :: "LoadOptions option \<Rightarrow> bool" where
  "wantsNoConfigError options =
     (case options of
        None \<Rightarrow> False
      | Some opts \<Rightarrow> (case showNoConfigError opts of None \<Rightarrow> False | Some b \<Rightarrow> b))"

definition errMsg :: "exn \<Rightarrow> string" where
  "errMsg err =
     (case err of
        SyntaxError m \<Rightarrow> m
      | ValidationError st \<Rightarrow> st
      | OtherError rendered \<Rightarrow> rendered)"

definition validationFailureText :: "string \<Rightarrow> string" where
  "validationFailureText detail =
     ''Could not validate S4TK config. You will not be able to build your project until all errors are resolved and the config has been reloaded. (''
       @ detail @ '')''"

text \<open>
  \<^verbatim>\<open>loadConfig\<close>. The \<^verbatim>\<open>try\<close> block is the inner \<^verbatim>\<open>case\<close>: reading the file
  and parsing its text are the two calls of the block that can throw, and every thrown value
  reaches the handler.
\<close>

definition loadConfig ::
  "'c module_imports \<Rightarrow> LoadOptions option \<Rightarrow> 'c world \<Rightarrow> 'c option completion \<times> 'c world" where
  "loadConfig env options w0 =
     (let w1 = set_config None w0;
          configUriInfo = findConfig w1
      in case (uri configUriInfo, exists configUriInfo) of
           (Some configUri, True) \<Rightarrow>
             (case (case readFile configUri w1 of
                      Thrown err \<Rightarrow> Thrown err
                    | Returned content \<Rightarrow> parseConfig env content) of
                Returned cfg \<Rightarrow>
                  (let w2 = showInformationMessage ''Successfully loaded S4TK config.'' [] w1
                   in (Returned (Some cfg), set_config (Some cfg) w2))
              | Thrown err \<Rightarrow>
                  (Returned None,
                   showErrorMessage (validationFailureText (errMsg err))
                     [GET_HELP_BUTTON, RELOAD_CONFIG_BUTTON] w1))
         | _ \<Rightarrow>
             (Returned None,
              if wantsNoConfigError options
              then showWarningMessage
                     ''No 's4tk.config.json' file was found at the root of this project.''
                     [CREATE_PROJECT_BUTTON] w1
              else w1))"

text \<open>
  \<^verbatim>\<open>setDefaultStbl\<close>. The assignments to \<^verbatim>\<open>this._config.stringTables\<close> change the
  object the slot holds; the slot is not assigned, so the setter does not run. The write
  is started and never awaited: its completion is dropped.
\<close>

definition setDefaultStbl ::
  "'a S4TKConfig_scheme module_imports \<Rightarrow> Uri \<Rightarrow> 'a S4TKConfig_scheme world
     \<Rightarrow> unit completion \<times> 'a S4TKConfig_scheme world" where
  "setDefaultStbl env stblUri w0 =
     (case config w0 of
        None \<Rightarrow>
          (Returned (),
           showErrorMessage
             ''Cannot set this STBL as default because no S4TK config is currently loaded.''
             [RELOAD_CONFIG_BUTTON] w0)
      | Some cfg \<Rightarrow>
          (let cfg' =
                 (case stringTables cfg of
                    None \<Rightarrow> cfg\<lparr>stringTables := Some \<lparr>defaultPath = fsPath env stblUri\<rparr>\<rparr>
                  | Some st \<Rightarrow> cfg\<lparr>stringTables := Some (st\<lparr>defaultPath := fsPath env stblUri\<rparr>)\<rparr>);
               w1 = w0\<lparr>config := Some cfg'\<rparr>
           in case uri (findConfig w1) of
                Some configUri \<Rightarrow>
                  (Returned (), snd (writeFile configUri (stringifyConfig env cfg') w1))
              | None \<Rightarrow>
                  (Returned (),
                   showErrorMessage
                     ''Failed to locate config file while updating default STBL. Please report this problem.''
                     [REPORT_PROBLEM_BUTTON] w1)))"

text \<open>
  \<^verbatim>\<open>createDefaultProject\<close>. The callback of the first write (show the document, load
  the configuration) runs when that write has succeeded; it is placed right after the
  write. Joining a path onto an undefined root is a \<^verbatim>\<open>TypeError\<close>.
\<close>

definition createDefaultProject ::
  "'c module_imports \<Rightarrow> 'c world \<Rightarrow> unit completion \<times> 'c world" where
  "createDefaultProject env w0 =
     (let configUriInfo = findConfig w0
      in if exists configUriInfo
         then (Returned (), showWarningMessage ''S4TK config file already exists.'' [] w0)
         else
           (case uri configUriInfo of
              None \<Rightarrow>
                (Returned (),
                 showErrorMessage ''Failed to create config file. Please report this problem.''
                   [REPORT_PROBLEM_BUTTON] w0)
            | Some configUri \<Rightarrow>
                (let w1 = (case writeFile configUri (DEFAULT_CONFIG_CONTENT env) w0 of
                             (Returned _, w) \<Rightarrow>
                               snd (loadConfig env None (showTextDocument configUri w))
                           | (Thrown _, w) \<Rightarrow> w)
                 in case firstFolderUri w1 of
                      None \<Rightarrow>
                        (Thrown (OtherError ''TypeError: Cannot read properties of undefined''), w1)
                    | Some rootUri \<Rightarrow>
                        (let w2 = createDirectory (joinPath rootUri [''out'']) w1;
                             w3 = createDirectory (joinPath rootUri [''src'']) w2;
                             w4 = createDirectory (joinPath rootUri [''strings'']) w3;
                             stblUri = joinPath rootUri [''strings'', ''default.stbl.json'']
                         in if \<not> fileExists stblUri w4
                            then (Returned (),
                                  snd (writeFile stblUri (generateRandomContent env) w4))
                            else (Returned (), w4)))))"




definition onDidDeleteFiles :: "FileDeleteEvent \<Rightarrow> 'c world \<Rightarrow> 'c world" where
  "onDidDeleteFiles e w =
     (if list_ex (\<lambda>u. endsWith (path u) CONFIG_FILENAME) (files e)
      then showWarningMessage ''S4TK config unloaded.'' [] (set_config None w)
      else w)"


subsection \<open>The URI check\<close>

text \<open>
  \<^verbatim>\<open>isURI\<close>, with the constructor \<^verbatim>\<open>URL\<close> of \<^verbatim>\<open>node:url\<close> as a parameter: it
  returns an object or throws.
\<close>

definition isURI :: "('a \<Rightarrow> 'u completion) \<Rightarrow> 'a \<Rightarrow> bool completion" where
  "isURI URL something =
     (case URL something of
        Returned _ \<Rightarrow> Returned True
      | Thrown error \<Rightarrow> Returned False)"

subsection \<open>Runs of the extension\<close>




text \<open>The flag as the host sees it: the context key is set and true.\<close>

definition hostActive :: "'c world \<Rightarrow> bool" where
  "hostActive w = (contextKeys w ACTIVE_CONTEXT_KEY = Some True)"

text \<open>The expression \<^verbatim>\<open>config.stringTables?.defaultPath\<close>.\<close>

definition currentDefaultPath :: "'a S4TKConfig_scheme \<Rightarrow> string option" where
  "currentDefaultPath c = map_option defaultPath (stringTables c)"

text \<open>
  The configuration \<^verbatim>\<open>setDefaultStbl\<close> leaves in the slot, as one function of the
  path and the configuration it found there.
\<close>

definition withDefaultPath :: "string \<Rightarrow> 'a S4TKConfig_scheme \<Rightarrow> 'a S4TKConfig_scheme" where
  "withDefaultPath p cfg =
     (case stringTables cfg of
        None \<Rightarrow> cfg\<lparr>stringTables := Some \<lparr>defaultPath = p\<rparr>\<rparr>
      | Some st \<Rightarrow> cfg\<lparr>stringTables := Some (st\<lparr>defaultPath := p\<rparr>)\<rparr>)"


subsection \<open>A concrete project\<close>

text \<open>
  A project at \<^verbatim>\<open>/proj\<close> with a small parser and serialiser, on which the statements
  below are instantiated: the serialiser writes the default path between a fixed prefix
  and suffix, the parser reads it back, rejects other texts that open a brace with a
  validation error and everything else with a syntax error.
\<close>

definition example_root :: Uri where
  "example_root = \<lparr>scheme = ''file'', path = ''/proj''\<rparr>"

definition example_config_uri :: Uri where
  "example_config_uri = \<lparr>scheme = ''file'', path = ''/proj/s4tk.config.json''\<rparr>"

definition example_prefix :: string where
  "example_prefix = ''{\"stringTables\":{\"defaultPath\":\"''"

definition example_suffix :: string where
  "example_suffix = ''\"}}''"

definition example_stringify :: "S4TKConfig \<Rightarrow> string" where
  "example_stringify c =
     (case stringTables c of
        None \<Rightarrow> ''{}''
      | Some st \<Rightarrow> example_prefix @ defaultPath st @ example_suffix)"

definition example_parse :: "string \<Rightarrow> S4TKConfig completion" where
  "example_parse s =
     (if s = ''{}'' then Returned \<lparr>stringTables = None\<rparr>
      else if length example_prefix + length example_suffix \<le> length s
              \<and> take (length example_prefix) s = example_prefix \<and> endsWith s example_suffix
      then Returned \<lparr>stringTables = Some
             \<lparr>defaultPath = take (length s - length example_prefix - length example_suffix)
                              (drop (length example_prefix) s)\<rparr>\<rparr>
      else if take 1 s = ''{''
      then Thrown (ValidationError ''instance.stringTables is not of a type(s) object'')
      else Thrown (SyntaxError ''Unexpected end of JSON input''))"

definition example_env :: "S4TKConfig module_imports" where
  "example_env =
     \<lparr>DEFAULT_CONFIG_CONTENT = ''{}'', parseConfig = example_parse,
      stringifyConfig = example_stringify, generateRandomContent = ''[]'', fsPath = path\<rparr>"

definition example_config :: S4TKConfig where
  "example_config = \<lparr>stringTables = Some \<lparr>defaultPath = ''/old''\<rparr>\<rparr>"

definition example_world :: "string \<Rightarrow> S4TKConfig world" where
  "example_world content =
     \<lparr>config = Some example_config,
      contextKeys = [ACTIVE_CONTEXT_KEY \<mapsto> True],
      workspaceFolders = Some [example_root],
      fs = [example_config_uri \<mapsto> File content],
      notifications = [], shownDocuments = [], openedLinks = []\<rparr>"

definition example_stbl_uri :: Uri where
  "example_stbl_uri = \<lparr>scheme = ''file'', path = ''/new''\<rparr>"

definition example_old_copy_uri :: Uri where
  "example_old_copy_uri = \<lparr>scheme = ''file'', path = ''/proj/old/s4tk.config.json''\<rparr>"

definition example_backup_uri :: Uri where
  "example_backup_uri = \<lparr>scheme = ''file'', path = ''/proj/backup-s4tk.config.json''\<rparr>"

definition example_URL :: "string \<Rightarrow> string completion" where
  "example_URL s =
     (if take 8 s = ''https://'' then Returned s
      else Thrown (OtherError ''TypeError [ERR_INVALID_URL]: Invalid URL''))"

section \<open>Properties\<close>

subsection \<open>Auxiliary facts\<close>

lemmas msg_defs =
  showMessage_def showInformationMessage_def showWarningMessage_def showErrorMessage_def

lemmas world_defs = msg_defs set_config_def setContext_def Boolean_def active_def hostActive_def

lemma endsWith_append: "endsWith (p @ t) t"
  by (simp add: endsWith_def)

lemma endsWith_joinSegment: "endsWith (joinSegment p n) n"
  using endsWith_append[of "p @ ''/''" n] endsWith_append[of p n]
  by (simp add: joinSegment_def)

lemma path_joinPath_single: "path (joinPath r [n]) = joinSegment (path r) n"
  by (simp add: joinPath_def)

lemma findConfig_set_config: "findConfig (set_config c w) = findConfig w"
  by (simp add: findConfig_def firstFolderUri_def set_config_def setContext_def fileExists_def
      Let_def split: option.splits list.splits)

lemma findConfig_config_update: "findConfig (w\<lparr>config := c\<rparr>) = findConfig w"
  by (simp add: findConfig_def firstFolderUri_def fileExists_def Let_def
      split: option.splits list.splits)

lemma findConfig_showMessage: "findConfig (showMessage sev body buttons w) = findConfig w"
  by (simp add: findConfig_def firstFolderUri_def fileExists_def showMessage_def Let_def
      split: option.splits list.splits)

lemma readFile_set_config: "readFile u (set_config c w) = readFile u w"
  by (simp add: readFile_def set_config_def setContext_def)

text \<open>The backing file's path ends with the file name.\<close>

lemma findConfig_uri_ends:
  "uri (findConfig w) = Some cu \<Longrightarrow> endsWith (path cu) CONFIG_FILENAME"
  by (auto simp: findConfig_def Let_def path_joinPath_single endsWith_joinSegment
      split: option.splits)

lemma findConfig_exists_iff:
  "exists (findConfig w) = (\<exists>cu. uri (findConfig w) = Some cu \<and> fs w cu \<noteq> None)"
  by (simp add: findConfig_def fileExists_def Let_def split: option.splits)

lemma findConfig_uri_folders:
  "workspaceFolders w' = workspaceFolders w \<Longrightarrow> uri (findConfig w') = uri (findConfig w)"
  by (simp add: findConfig_def firstFolderUri_def Let_def split: option.splits list.splits)

lemma findConfig_uri_Some:
  "uri (findConfig w) = Some cu \<Longrightarrow> \<exists>r. firstFolderUri w = Some r"
  by (simp add: findConfig_def split: option.splits)

lemma firstFolderUri_folders:
  "workspaceFolders w' = workspaceFolders w \<Longrightarrow> firstFolderUri w' = firstFolderUri w"
  by (simp add: firstFolderUri_def)

text \<open>The two ways through \<^verbatim>\<open>loadConfig\<close>: the file is there, or it is not.\<close>

lemma loadConfig_found:
  assumes "uri (findConfig w) = Some cu" and "exists (findConfig w)"
  shows "loadConfig env options w =
           (case (case readFile cu w of
                    Thrown err \<Rightarrow> Thrown err
                  | Returned content \<Rightarrow> parseConfig env content) of
              Returned cfg \<Rightarrow>
                (Returned (Some cfg),
                 set_config (Some cfg)
                   (showInformationMessage ''Successfully loaded S4TK config.'' []
                      (set_config None w)))
            | Thrown err \<Rightarrow>
                (Returned None,
                 showErrorMessage (validationFailureText (errMsg err))
                   [GET_HELP_BUTTON, RELOAD_CONFIG_BUTTON] (set_config None w)))"
  using assms
  by (simp add: loadConfig_def findConfig_set_config readFile_set_config Let_def
      split: completion.splits)

lemma loadConfig_absent:
  assumes "uri (findConfig w) = None \<or> \<not> exists (findConfig w)"
  shows "loadConfig env options w =
           (Returned None,
            if wantsNoConfigError options
            then showWarningMessage
                   ''No 's4tk.config.json' file was found at the root of this project.''
                   [CREATE_PROJECT_BUTTON] (set_config None w)
            else set_config None w)"
  using assms
  by (auto simp: loadConfig_def findConfig_set_config Let_def split: option.splits bool.splits)

text \<open>\<^verbatim>\<open>loadConfig\<close> touches neither the files nor the folders.\<close>

lemma loadConfig_frame:
  "fs (snd (loadConfig env options w)) = fs w"
  "workspaceFolders (snd (loadConfig env options w)) = workspaceFolders w"
proof -
  show "fs (snd (loadConfig env options w)) = fs w"
  proof (cases "uri (findConfig w) = None \<or> \<not> exists (findConfig w)")
    case True
    then show ?thesis by (simp add: loadConfig_absent world_defs)
  next
    case False
    then show ?thesis by (auto simp: loadConfig_found world_defs split: completion.splits)
  qed
  show "workspaceFolders (snd (loadConfig env options w)) = workspaceFolders w"
  proof (cases "uri (findConfig w) = None \<or> \<not> exists (findConfig w)")
    case True
    then show ?thesis by (simp add: loadConfig_absent world_defs)
  next
    case False
    then show ?thesis by (auto simp: loadConfig_found world_defs split: completion.splits)
  qed
qed

lemma createDirectory_frame:
  "workspaceFolders (createDirectory d w) = workspaceFolders w"
  "fs w u \<noteq> None \<Longrightarrow> fs (createDirectory d w) u \<noteq> None"
  by (auto simp: createDirectory_def split: option.splits)

lemma writeFile_frame:
  "workspaceFolders (snd (writeFile t content w)) = workspaceFolders w"
  "fs w u \<noteq> None \<Longrightarrow> fs (snd (writeFile t content w)) u \<noteq> None"
  by (auto simp: writeFile_def split: option.splits fs_entry.splits)

text \<open>\<^verbatim>\<open>setDefaultStbl\<close> on a loaded workspace.\<close>

lemma currentDefaultPath_withDefaultPath:
  "currentDefaultPath (withDefaultPath p cfg) = Some p"
  by (simp add: currentDefaultPath_def withDefaultPath_def split: option.splits)

lemma setDefaultStbl_loaded_eq:
  assumes "config w = Some cfg"
  shows "setDefaultStbl env stblUri w =
           (case uri (findConfig w) of
              Some configUri \<Rightarrow>
                (Returned (),
                 snd (writeFile configUri
                        (stringifyConfig env (withDefaultPath (fsPath env stblUri) cfg))
                        (w\<lparr>config := Some (withDefaultPath (fsPath env stblUri) cfg)\<rparr>)))
            | None \<Rightarrow>
                (Returned (),
                 showErrorMessage
                   ''Failed to locate config file while updating default STBL. Please report this problem.''
                   [REPORT_PROBLEM_BUTTON]
                   (w\<lparr>config := Some (withDefaultPath (fsPath env stblUri) cfg)\<rparr>)))"
  using assms
  by (simp add: setDefaultStbl_def withDefaultPath_def Let_def findConfig_config_update
      split: option.splits)

text \<open>The concrete project, evaluated.\<close>

lemmas example_defs = example_world_def example_env_def example_root_def example_config_uri_def
  example_config_def example_prefix_def example_suffix_def

lemma example_findConfig:
  "findConfig (example_world content) = \<lparr>uri = Some example_config_uri, exists = True\<rparr>"
  by (simp add: findConfig_def firstFolderUri_def fileExists_def joinPath_def joinSegment_def
      CONFIG_FILENAME_def example_defs)

lemma example_readFile:
  "readFile example_config_uri (example_world content) = Returned content"
  by (simp add: readFile_def example_defs)

lemma example_parse_mods:
  "example_parse ''{\"stringTables\":{\"defaultPath\":\"/mods\"}}'' =
     Returned \<lparr>stringTables = Some \<lparr>defaultPath = ''/mods''\<rparr>\<rparr>"
  by (simp add: example_parse_def endsWith_def example_defs)

lemma example_parse_truncated:
  "example_parse ''{\"stri'' =
     Thrown (ValidationError ''instance.stringTables is not of a type(s) object'')"
  by (simp add: example_parse_def endsWith_def example_defs)

lemma example_parse_garbage:
  "example_parse ''stri'' = Thrown (SyntaxError ''Unexpected end of JSON input'')"
  by (simp add: example_parse_def endsWith_def example_defs)

lemma example_world_sel:
  "config (example_world content) = Some example_config"
  "notifications (example_world content) = []"
  "workspaceFolders (example_world content) = Some [example_root]"
  "fs (example_world content) = [example_config_uri \<mapsto> File content]"
  by (simp_all add: example_world_def)

lemma example_env_sel:
  "parseConfig example_env = example_parse"
  "stringifyConfig example_env = example_stringify"
  "fsPath example_env = path"
  by (simp_all add: example_env_def)

lemma example_codec: "example_parse (example_stringify c) = Returned c"
proof (cases "stringTables c")
  case None
  then show ?thesis by (simp add: example_stringify_def example_parse_def)
next
  case (Some st)
  have len: "length example_prefix = 32" "length example_suffix = 3"
    by (simp_all add: example_prefix_def example_suffix_def)
  have neq: "example_prefix @ defaultPath st @ example_suffix \<noteq> ''{}''"
    by (simp add: example_prefix_def)
  have "example_parse (example_prefix @ defaultPath st @ example_suffix) =
          Returned \<lparr>stringTables = Some \<lparr>defaultPath = defaultPath st\<rparr>\<rparr>"
    using neq endsWith_append[of "example_prefix @ defaultPath st" example_suffix]
    by (simp add: example_parse_def len)
  then show ?thesis
    using Some by (simp add: example_stringify_def)
qed

text \<open>
  A first \<^verbatim>\<open>createDefaultProject\<close> in a folder without the file leaves the file
  there.
\<close>

lemma createDefaultProject_creates:
  assumes "uri (findConfig w) = Some cu" and "\<not> exists (findConfig w)"
  shows "workspaceFolders (snd (createDefaultProject env w)) = workspaceFolders w
         \<and> fs (snd (createDefaultProject env w)) cu \<noteq> None"
proof -
  from assms have absent: "fs w cu = None"
    by (simp add: findConfig_exists_iff)
  obtain r where r: "firstFolderUri w = Some r"
    using assms(1) findConfig_uri_Some by blast
  let ?wa = "w\<lparr>fs := (fs w)(cu \<mapsto> File (DEFAULT_CONFIG_CONTENT env))\<rparr>"
  let ?w1 = "snd (loadConfig env None (showTextDocument cu ?wa))"
  have written: "writeFile cu (DEFAULT_CONFIG_CONTENT env) w = (Returned (), ?wa)"
    using absent by (simp add: writeFile_def)
  have w1_folders: "workspaceFolders ?w1 = workspaceFolders w"
    by (simp add: loadConfig_frame showTextDocument_def)
  have w1_fs: "fs ?w1 cu \<noteq> None"
    by (simp add: loadConfig_frame showTextDocument_def)
  have w1_root: "firstFolderUri ?w1 = Some r"
    using r firstFolderUri_folders[OF w1_folders] by simp
  let ?w4 = "createDirectory (joinPath r [''strings''])
               (createDirectory (joinPath r [''src''])
                  (createDirectory (joinPath r [''out'']) ?w1))"
  have w4_folders: "workspaceFolders ?w4 = workspaceFolders w"
    by (simp only: createDirectory_frame w1_folders)
  have w4_fs: "fs ?w4 cu \<noteq> None"
    by (intro createDirectory_frame(2) w1_fs)
  have result: "snd (createDefaultProject env w) =
      (if \<not> fileExists (joinPath r [''strings'', ''default.stbl.json'']) ?w4
       then snd (writeFile (joinPath r [''strings'', ''default.stbl.json''])
                   (generateRandomContent env) ?w4)
       else ?w4)"
    using assms written w1_root
    by (simp add: createDefaultProject_def Let_def)
  show ?thesis
  proof (cases "fileExists (joinPath r [''strings'', ''default.stbl.json'']) ?w4")
    case True
    then show ?thesis
      unfolding result using w4_folders w4_fs by (simp only: if_False if_True not_True_eq_False simp_thms)
  next
    case False
    then show ?thesis
      unfolding result using w4_folders writeFile_frame(2)[OF w4_fs]
      by (simp only: if_True writeFile_frame(1) simp_thms)
  qed
qed














subsection \<open>Loading\<close>

text \<open>
  C1. When the backing file is there, can be read, and its text parses and validates,
  \<^verbatim>\<open>loadConfig\<close> returns the parsed configuration, the slot holds that same
  configuration, and the flag is true, for the getter and for the host.
\<close>

theorem loadConfig_success:
  assumes "uri (findConfig w) = Some cu"
    and "exists (findConfig w)"
    and "readFile cu w = Returned content"
    and "parseConfig env content = Returned cfg"
  shows "fst (loadConfig env options w) = Returned (Some cfg)
         \<and> config (snd (loadConfig env options w)) = Some cfg
         \<and> active (snd (loadConfig env options w))
         \<and> hostActive (snd (loadConfig env options w))"
  using assms by (simp add: loadConfig_found world_defs)

theorem loadConfig_success_witness:
  "fst (loadConfig example_env None
          (example_world ''{\"stringTables\":{\"defaultPath\":\"/mods\"}}'')) =
     Returned (Some \<lparr>stringTables = Some \<lparr>defaultPath = ''/mods''\<rparr>\<rparr>)
   \<and> config (snd (loadConfig example_env None
          (example_world ''{\"stringTables\":{\"defaultPath\":\"/mods\"}}''))) =
     Some \<lparr>stringTables = Some \<lparr>defaultPath = ''/mods''\<rparr>\<rparr>
   \<and> active (snd (loadConfig example_env None
          (example_world ''{\"stringTables\":{\"defaultPath\":\"/mods\"}}'')))
   \<and> hostActive (snd (loadConfig example_env None
          (example_world ''{\"stringTables\":{\"defaultPath\":\"/mods\"}}'')))"
  using loadConfig_success
          [of "example_world ''{\"stringTables\":{\"defaultPath\":\"/mods\"}}''"
              example_config_uri
              "''{\"stringTables\":{\"defaultPath\":\"/mods\"}}''"
              example_env
              "\<lparr>stringTables = Some \<lparr>defaultPath = ''/mods''\<rparr>\<rparr>"
              None]
  by (simp add: example_findConfig example_readFile example_env_sel example_parse_mods)

text \<open>
  C2. When the load fails (no folder is open, the backing file is absent, it cannot be
  read, or its text is rejected by the parser or the validation), \<^verbatim>\<open>loadConfig\<close>
  returns \<^verbatim>\<open>undefined\<close> and the slot is empty afterwards, whatever it held before;
  the flag is false for the getter and for the host.
\<close>

theorem loadConfig_failure:
  assumes "uri (findConfig w) = None \<or> \<not> exists (findConfig w) \<or>
           (\<exists>cu err. uri (findConfig w) = Some cu \<and>
              (readFile cu w = Thrown err \<or>
               (\<exists>content. readFile cu w = Returned content \<and>
                          parseConfig env content = Thrown err)))"
  shows "fst (loadConfig env options w) = Returned None
         \<and> config (snd (loadConfig env options w)) = None
         \<and> \<not> active (snd (loadConfig env options w))
         \<and> \<not> hostActive (snd (loadConfig env options w))"
proof -
  from assms consider
      (absent) "uri (findConfig w) = None \<or> \<not> exists (findConfig w)"
    | (failed) cu err where "uri (findConfig w) = Some cu" and "exists (findConfig w)"
        and "readFile cu w = Thrown err \<or>
             (\<exists>content. readFile cu w = Returned content \<and>
                        parseConfig env content = Thrown err)"
    by blast
  then show ?thesis
  proof cases
    case absent
    then show ?thesis by (simp add: loadConfig_absent world_defs)
  next
    case failed
    then show ?thesis by (auto simp: loadConfig_found world_defs)
  qed
qed

theorem loadConfig_failure_witness:
  "config (example_world ''{\"stri'') = Some example_config
   \<and> fst (loadConfig example_env None (example_world ''{\"stri'')) = Returned None
   \<and> config (snd (loadConfig example_env None (example_world ''{\"stri''))) = None
   \<and> \<not> active (snd (loadConfig example_env None (example_world ''{\"stri'')))
   \<and> \<not> hostActive (snd (loadConfig example_env None (example_world ''{\"stri'')))"
  using loadConfig_failure [of "example_world ''{\"stri''" example_env None]
  by (simp add: example_findConfig example_readFile example_env_sel example_parse_truncated
      example_world_sel)

text \<open>
  C3. \<^verbatim>\<open>loadConfig\<close> always completes by returning. When the text of the backing
  file makes the parser throw a \<^verbatim>\<open>SyntaxError\<close>, the call adds exactly one message, an
  error whose text contains the error's \<^verbatim>\<open>message\<close>; when it throws a
  \<^verbatim>\<open>ValidationError\<close>, the one added message is an error whose text contains the
  error's \<^verbatim>\<open>stack\<close>. Both offer "Get Help" and "Reload Config".
\<close>

theorem loadConfig_handles_failures:
  "(\<exists>r. fst (loadConfig env options w) = Returned r)
   \<and> (\<forall>cu content m.
         uri (findConfig w) = Some cu \<and> exists (findConfig w) \<and>
         readFile cu w = Returned content \<and>
         parseConfig env content = Thrown (SyntaxError m) \<longrightarrow>
         notifications (snd (loadConfig env options w)) =
           notifications w @
             [\<lparr>severity = Error, msg = validationFailureText m,
               items = [GET_HELP_BUTTON, RELOAD_CONFIG_BUTTON]\<rparr>])
   \<and> (\<forall>cu content st.
         uri (findConfig w) = Some cu \<and> exists (findConfig w) \<and>
         readFile cu w = Returned content \<and>
         parseConfig env content = Thrown (ValidationError st) \<longrightarrow>
         notifications (snd (loadConfig env options w)) =
           notifications w @
             [\<lparr>severity = Error, msg = validationFailureText st,
               items = [GET_HELP_BUTTON, RELOAD_CONFIG_BUTTON]\<rparr>])
   \<and> (\<forall>detail. \<exists>before after. validationFailureText detail = before @ detail @ after)"
proof (intro conjI allI impI)
  show "\<exists>r. fst (loadConfig env options w) = Returned r"
  proof (cases "uri (findConfig w) = None \<or> \<not> exists (findConfig w)")
    case True
    then show ?thesis by (simp add: loadConfig_absent)
  next
    case False
    then show ?thesis by (auto simp: loadConfig_found split: completion.splits)
  qed
next
  fix cu content m
  assume "uri (findConfig w) = Some cu \<and> exists (findConfig w) \<and>
         readFile cu w = Returned content \<and>
         parseConfig env content = Thrown (SyntaxError m)"
  then show "notifications (snd (loadConfig env options w)) =
           notifications w @
             [\<lparr>severity = Error, msg = validationFailureText m,
               items = [GET_HELP_BUTTON, RELOAD_CONFIG_BUTTON]\<rparr>]"
    by (simp add: loadConfig_found world_defs errMsg_def)
next
  fix cu content st
  assume "uri (findConfig w) = Some cu \<and> exists (findConfig w) \<and>
         readFile cu w = Returned content \<and>
         parseConfig env content = Thrown (ValidationError st)"
  then show "notifications (snd (loadConfig env options w)) =
           notifications w @
             [\<lparr>severity = Error, msg = validationFailureText st,
               items = [GET_HELP_BUTTON, RELOAD_CONFIG_BUTTON]\<rparr>]"
    by (simp add: loadConfig_found world_defs errMsg_def)
next
  fix detail
  show "\<exists>before after. validationFailureText detail = before @ detail @ after"
    unfolding validationFailureText_def by blast
qed

theorem loadConfig_handles_failures_witness:
  "notifications (snd (loadConfig example_env None (example_world ''stri''))) =
     [\<lparr>severity = Error, msg = validationFailureText ''Unexpected end of JSON input'',
       items = [GET_HELP_BUTTON, RELOAD_CONFIG_BUTTON]\<rparr>]
   \<and> notifications (snd (loadConfig example_env None (example_world ''{\"stri''))) =
     [\<lparr>severity = Error,
       msg = validationFailureText ''instance.stringTables is not of a type(s) object'',
       items = [GET_HELP_BUTTON, RELOAD_CONFIG_BUTTON]\<rparr>]"
  using loadConfig_handles_failures [of example_env None "example_world ''stri''"]
    loadConfig_handles_failures [of example_env None "example_world ''{\"stri''"]
  by (simp add: example_findConfig example_readFile example_env_sel example_parse_truncated
      example_parse_garbage example_world_sel)

subsection \<open>Deleted files\<close>

text \<open>
  What the listener does right: when the backing file of the project root is among the
  deleted files, the slot is emptied and exactly one warning is added.
\<close>

lemma onDidDeleteFiles_backing_file:
  assumes "uri (findConfig w) = Some cu" and "cu \<in> set (files e)"
  shows "config (onDidDeleteFiles e w) = None
         \<and> \<not> active (onDidDeleteFiles e w)
         \<and> notifications (onDidDeleteFiles e w) =
             notifications w @
               [\<lparr>severity = Warning, msg = ''S4TK config unloaded.'', items = []\<rparr>]"
proof -
  have "list_ex (\<lambda>u. endsWith (path u) CONFIG_FILENAME) (files e)"
    using assms findConfig_uri_ends[of w cu] by (auto simp: list_ex_iff)
  then show ?thesis
    by (simp add: onDidDeleteFiles_def world_defs)
qed

text \<open>
  C4. Deleting only files other than the backing file of the project root must leave the
  state as it is. The listener does not keep to this: it compares the characters at the
  end of each deleted path with the file name, so a copy in a subfolder
  (\<^verbatim>\<open>/proj/old/s4tk.config.json\<close>) and a file whose name merely ends the same way
  (\<^verbatim>\<open>/proj/backup-s4tk.config.json\<close>) both empty the slot. In the project at
  \<^verbatim>\<open>/proj\<close> the backing file \<^verbatim>\<open>/proj/s4tk.config.json\<close> is in neither deleted set
  and is still on disk; the slot held a configuration before and holds none after, one
  warning is shown, and loading again right afterwards succeeds.
\<close>

theorem onDidDeleteFiles_unrelated_unloads:
  "uri (findConfig (example_world ''{}'')) = Some example_config_uri
   \<and> fs (example_world ''{}'') example_config_uri = Some (File ''{}'')
   \<and> config (example_world ''{}'') = Some example_config
   \<and> example_config_uri \<notin> set (files \<lparr>files = [example_old_copy_uri]\<rparr>)
   \<and> config (onDidDeleteFiles \<lparr>files = [example_old_copy_uri]\<rparr> (example_world ''{}'')) = None
   \<and> notifications (onDidDeleteFiles \<lparr>files = [example_old_copy_uri]\<rparr> (example_world ''{}'')) =
       [\<lparr>severity = Warning, msg = ''S4TK config unloaded.'', items = []\<rparr>]
   \<and> fs (onDidDeleteFiles \<lparr>files = [example_old_copy_uri]\<rparr> (example_world ''{}''))
         example_config_uri = Some (File ''{}'')
   \<and> example_config_uri \<notin> set (files \<lparr>files = [example_backup_uri]\<rparr>)
   \<and> config (onDidDeleteFiles \<lparr>files = [example_backup_uri]\<rparr> (example_world ''{}'')) = None
   \<and> fst (loadConfig example_env None
            (onDidDeleteFiles \<lparr>files = [example_old_copy_uri]\<rparr> (example_world ''{}''))) =
       Returned (Some \<lparr>stringTables = None\<rparr>)"
proof -
  have unloaded: "onDidDeleteFiles \<lparr>files = [u]\<rparr> (example_world ''{}'') =
      (example_world ''{}'')
        \<lparr>config := None,
         contextKeys := (contextKeys (example_world ''{}''))(ACTIVE_CONTEXT_KEY \<mapsto> False),
         notifications := [\<lparr>severity = Warning, msg = ''S4TK config unloaded.'', items = []\<rparr>]\<rparr>"
    if "endsWith (path u) CONFIG_FILENAME" for u
    using that
    by (simp add: onDidDeleteFiles_def set_config_def setContext_def Boolean_def msg_defs
        example_world_sel)
  have old_copy: "endsWith (path example_old_copy_uri) CONFIG_FILENAME"
    by (simp add: endsWith_def CONFIG_FILENAME_def example_old_copy_uri_def)
  have backup: "endsWith (path example_backup_uri) CONFIG_FILENAME"
    by (simp add: endsWith_def CONFIG_FILENAME_def example_backup_uri_def)
  have distinct: "example_config_uri \<noteq> example_old_copy_uri"
      "example_config_uri \<noteq> example_backup_uri"
    by (simp_all add: example_config_uri_def example_old_copy_uri_def example_backup_uri_def)
  let ?after = "onDidDeleteFiles \<lparr>files = [example_old_copy_uri]\<rparr> (example_world ''{}'')"
  have same_files: "findConfig (w\<lparr>config := c, contextKeys := k, notifications := n\<rparr>) =
      findConfig w" for w :: "S4TKConfig world" and c k n
    by (simp add: findConfig_def firstFolderUri_def fileExists_def Let_def
        split: option.splits list.splits)
  have located: "uri (findConfig ?after) = Some example_config_uri"
      "exists (findConfig ?after)"
    by (simp_all add: unloaded[OF old_copy] same_files example_findConfig)
  have read: "readFile example_config_uri ?after = Returned ''{}''"
    using example_readFile[of "''{}''"]
    by (simp add: unloaded[OF old_copy] readFile_def)
  have parsed: "parseConfig example_env ''{}'' = Returned \<lparr>stringTables = None\<rparr>"
    by (simp add: example_env_sel example_parse_def)
  have reload: "fst (loadConfig example_env None ?after) = Returned (Some \<lparr>stringTables = None\<rparr>)"
    using read parsed by (simp add: loadConfig_found[OF located])
  show ?thesis
    using distinct reload
    by (simp add: unloaded[OF old_copy] unloaded[OF backup] example_findConfig example_world_sel)
qed

subsection \<open>The default string table\<close>

text \<open>
  C5. With a configuration loaded, a backing location that resolves and is not a
  directory, \<^verbatim>\<open>setDefaultStbl\<close> leaves in the slot a configuration whose default path
  is the \<^verbatim>\<open>fsPath\<close> of the given URI, and the backing file then holds a text that parses
  to a configuration with that default path. The parser and the serialiser are not among
  the sources: the statement asks of them that parsing a serialised configuration succeeds
  and keeps its default path.
\<close>

theorem setDefaultStbl_loaded:
  assumes loaded: "config w = Some cfg"
    and located: "uri (findConfig w) = Some cu"
    and writable: "fs w cu \<noteq> Some Directory"
    and codec: "\<forall>c. \<exists>c'. parseConfig env (stringifyConfig env c) = Returned c' \<and>
                        currentDefaultPath c' = currentDefaultPath c"
  shows "(\<exists>cfg'. config (snd (setDefaultStbl env stblUri w)) = Some cfg' \<and>
                 currentDefaultPath cfg' = Some (fsPath env stblUri))
         \<and> (\<exists>content c'. readFile cu (snd (setDefaultStbl env stblUri w)) = Returned content \<and>
                 parseConfig env content = Returned c' \<and>
                 currentDefaultPath c' = Some (fsPath env stblUri))"
proof -
  let ?cfg' = "withDefaultPath (fsPath env stblUri) cfg"
  obtain c' where c': "parseConfig env (stringifyConfig env ?cfg') = Returned c'"
      "currentDefaultPath c' = currentDefaultPath ?cfg'"
    using codec by blast
  have w': "snd (setDefaultStbl env stblUri w) =
          w\<lparr>config := Some ?cfg', fs := (fs w)(cu \<mapsto> File (stringifyConfig env ?cfg'))\<rparr>"
    using loaded located writable
    by (simp add: setDefaultStbl_loaded_eq writeFile_def split: option.splits fs_entry.splits)
  show ?thesis
    using c' by (simp add: w' readFile_def currentDefaultPath_withDefaultPath)
qed

theorem setDefaultStbl_loaded_witness:
  "config (snd (setDefaultStbl example_env example_stbl_uri
              (example_world ''{\"stringTables\":{\"defaultPath\":\"/old\"}}''))) =
     Some \<lparr>stringTables = Some \<lparr>defaultPath = ''/new''\<rparr>\<rparr>
   \<and> readFile example_config_uri
         (snd (setDefaultStbl example_env example_stbl_uri
                 (example_world ''{\"stringTables\":{\"defaultPath\":\"/old\"}}''))) =
       Returned ''{\"stringTables\":{\"defaultPath\":\"/new\"}}''
   \<and> (\<exists>c'. example_parse ''{\"stringTables\":{\"defaultPath\":\"/new\"}}'' = Returned c' \<and>
             currentDefaultPath c' = Some ''/new'')"
proof -
  let ?w = "example_world ''{\"stringTables\":{\"defaultPath\":\"/old\"}}''"
  have loaded: "config ?w = Some example_config"
    by (simp add: example_world_sel)
  have located: "uri (findConfig ?w) = Some example_config_uri"
    by (simp add: example_findConfig)
  have writable: "fs ?w example_config_uri \<noteq> Some Directory"
    by (simp add: example_world_sel)
  have codec: "\<forall>c. \<exists>c'. parseConfig example_env (stringifyConfig example_env c) = Returned c' \<and>
                        currentDefaultPath c' = currentDefaultPath c"
    by (simp add: example_env_sel example_codec)
  have target: "fsPath example_env example_stbl_uri = ''/new''"
    by (simp add: example_env_sel example_stbl_uri_def)
  have after: "snd (setDefaultStbl example_env example_stbl_uri ?w) =
      ?w\<lparr>config := Some \<lparr>stringTables = Some \<lparr>defaultPath = ''/new''\<rparr>\<rparr>,
          fs := (fs ?w)(example_config_uri \<mapsto>
                   File ''{\"stringTables\":{\"defaultPath\":\"/new\"}}'')\<rparr>"
    using loaded located
    by (simp add: setDefaultStbl_loaded_eq writeFile_def example_world_sel withDefaultPath_def
        example_config_def example_env_sel example_stbl_uri_def example_stringify_def
        example_prefix_def example_suffix_def)
  show ?thesis
    using setDefaultStbl_loaded [OF loaded located writable codec, of example_stbl_uri]
    by (simp add: after readFile_def example_env_sel(1) target)
qed

text \<open>
  C6. With no configuration loaded, \<^verbatim>\<open>setDefaultStbl\<close> returns, and the world after
  it is the world before it with one more message: an error that offers "Reload Config".
  No file and no slot changes.
\<close>

theorem setDefaultStbl_unloaded:
  assumes "config w = None"
  shows "setDefaultStbl env stblUri w =
           (Returned (),
            w\<lparr>notifications := notifications w @
                [\<lparr>severity = Error,
                  msg = ''Cannot set this STBL as default because no S4TK config is currently loaded.'',
                  items = [RELOAD_CONFIG_BUTTON]\<rparr>]\<rparr>)
         \<and> config (snd (setDefaultStbl env stblUri w)) = None
         \<and> fs (snd (setDefaultStbl env stblUri w)) = fs w"
  using assms by (simp add: setDefaultStbl_def msg_defs)

theorem setDefaultStbl_unloaded_witness:
  "setDefaultStbl example_env example_stbl_uri (initial_world (Some [example_root]) Map.empty) =
     (Returned (),
      (initial_world (Some [example_root]) Map.empty)
        \<lparr>notifications :=
           [\<lparr>severity = Error,
             msg = ''Cannot set this STBL as default because no S4TK config is currently loaded.'',
             items = [''Reload Config'']\<rparr>]\<rparr>)"
  using setDefaultStbl_unloaded
          [of "initial_world (Some [example_root]) Map.empty" example_env example_stbl_uri]
  by (simp add: initial_world_def RELOAD_CONFIG_BUTTON_def)

text \<open>
  C7. With a configuration loaded and no backing location to resolve,
  \<^verbatim>\<open>setDefaultStbl\<close> returns, the slot holds the configuration with the new default
  path, no file has changed, and the one added message is an error that offers
  "Report Problem".
\<close>

theorem setDefaultStbl_unresolved:
  assumes "config w = Some cfg" and "uri (findConfig w) = None"
  shows "fst (setDefaultStbl env stblUri w) = Returned ()
         \<and> (\<exists>cfg'. config (snd (setDefaultStbl env stblUri w)) = Some cfg' \<and>
                   currentDefaultPath cfg' = Some (fsPath env stblUri))
         \<and> fs (snd (setDefaultStbl env stblUri w)) = fs w
         \<and> notifications (snd (setDefaultStbl env stblUri w)) =
             notifications w @
               [\<lparr>severity = Error,
                 msg = ''Failed to locate config file while updating default STBL. Please report this problem.'',
                 items = [REPORT_PROBLEM_BUTTON]\<rparr>]"
  using assms
  by (simp add: setDefaultStbl_loaded_eq msg_defs currentDefaultPath_withDefaultPath)

theorem setDefaultStbl_unresolved_witness:
  "config (snd (setDefaultStbl example_env example_stbl_uri
                  ((example_world ''{}'')\<lparr>workspaceFolders := None\<rparr>))) =
     Some \<lparr>stringTables = Some \<lparr>defaultPath = ''/new''\<rparr>\<rparr>
   \<and> fs (snd (setDefaultStbl example_env example_stbl_uri
                  ((example_world ''{}'')\<lparr>workspaceFolders := None\<rparr>))) example_config_uri =
     Some (File ''{}'')
   \<and> notifications (snd (setDefaultStbl example_env example_stbl_uri
                  ((example_world ''{}'')\<lparr>workspaceFolders := None\<rparr>))) =
     [\<lparr>severity = Error,
       msg = ''Failed to locate config file while updating default STBL. Please report this problem.'',
       items = [''Report Problem'']\<rparr>]"
proof -
  let ?w = "(example_world ''{}'')\<lparr>workspaceFolders := None\<rparr>"
  have unresolved: "uri (findConfig ?w) = None"
    by (simp add: findConfig_def firstFolderUri_def)
  have loaded: "config ?w = Some example_config"
    by (simp add: example_world_sel)
  have mem: "config (snd (setDefaultStbl example_env example_stbl_uri ?w)) =
      Some \<lparr>stringTables = Some \<lparr>defaultPath = ''/new''\<rparr>\<rparr>"
    using loaded unresolved
    by (simp add: setDefaultStbl_loaded_eq msg_defs withDefaultPath_def example_config_def
        example_env_sel example_stbl_uri_def)
  show ?thesis
    using setDefaultStbl_unresolved [OF loaded unresolved, of example_env example_stbl_uri] mem
    by (simp add: example_world_sel REPORT_PROBLEM_BUTTON_def)
qed

subsection \<open>The default project\<close>

text \<open>
  C8. When the configuration file exists at the project root, \<^verbatim>\<open>createDefaultProject\<close>
  returns and the world after it is the world before it with one more message, the
  warning. In an open folder a second call, right after a first one, is always of that
  kind.
\<close>

theorem createDefaultProject_existing:
  "(exists (findConfig w) \<longrightarrow>
      createDefaultProject env w =
        (Returned (),
         w\<lparr>notifications := notifications w @
             [\<lparr>severity = Warning, msg = ''S4TK config file already exists.'', items = []\<rparr>]\<rparr>))
   \<and> (firstFolderUri w \<noteq> None \<longrightarrow>
      createDefaultProject env (snd (createDefaultProject env w)) =
        (Returned (),
         (snd (createDefaultProject env w))
           \<lparr>notifications := notifications (snd (createDefaultProject env w)) @
             [\<lparr>severity = Warning, msg = ''S4TK config file already exists.'', items = []\<rparr>]\<rparr>))"
proof (intro conjI impI)
  have warn: "exists (findConfig v) \<Longrightarrow>
      createDefaultProject env v =
        (Returned (),
         v\<lparr>notifications := notifications v @
             [\<lparr>severity = Warning, msg = ''S4TK config file already exists.'', items = []\<rparr>]\<rparr>)"
    for v :: "'a world"
    by (simp add: createDefaultProject_def msg_defs Let_def)
  {
    assume "exists (findConfig w)"
    then show "createDefaultProject env w =
        (Returned (),
         w\<lparr>notifications := notifications w @
             [\<lparr>severity = Warning, msg = ''S4TK config file already exists.'', items = []\<rparr>]\<rparr>)"
      by (rule warn)
  }
  {
    assume root: "firstFolderUri w \<noteq> None"
    then obtain cu where cu: "uri (findConfig w) = Some cu"
      by (auto simp: findConfig_def Let_def)
    have "exists (findConfig (snd (createDefaultProject env w)))"
    proof (cases "exists (findConfig w)")
      case True
      then show ?thesis
        using warn[OF True] findConfig_showMessage[of Warning _ "[]" w]
        by (simp add: showMessage_def)
    next
      case False
      from createDefaultProject_creates[OF cu False, of env]
      show ?thesis
        using cu findConfig_uri_folders[of "snd (createDefaultProject env w)" w]
        by (simp add: findConfig_exists_iff)
    qed
    then show "createDefaultProject env (snd (createDefaultProject env w)) =
        (Returned (),
         (snd (createDefaultProject env w))
           \<lparr>notifications := notifications (snd (createDefaultProject env w)) @
             [\<lparr>severity = Warning, msg = ''S4TK config file already exists.'', items = []\<rparr>]\<rparr>)"
      by (rule warn)
  }
qed

theorem createDefaultProject_existing_witness:
  "createDefaultProject example_env (example_world ''{}'') =
     (Returned (),
      (example_world ''{}'')
        \<lparr>notifications :=
           [\<lparr>severity = Warning, msg = ''S4TK config file already exists.'', items = []\<rparr>]\<rparr>)
   \<and> fst (createDefaultProject example_env
            (snd (createDefaultProject example_env
                    (initial_world (Some [example_root]) Map.empty)))) = Returned ()
   \<and> fs (snd (createDefaultProject example_env
            (snd (createDefaultProject example_env
                    (initial_world (Some [example_root]) Map.empty))))) =
       fs (snd (createDefaultProject example_env (initial_world (Some [example_root]) Map.empty)))"
  using createDefaultProject_existing [of "example_world ''{}''" example_env]
    createDefaultProject_existing [of "initial_world (Some [example_root]) Map.empty" example_env]
  by (simp add: example_findConfig example_world_sel firstFolderUri_def initial_world_def)

subsection \<open>The flag\<close>


subsection \<open>The URI check\<close>

text \<open>
  C10. \<^verbatim>\<open>isURI\<close> returns a boolean on every input: true exactly when the constructor
  returns, false exactly when the constructor throws.
\<close>

theorem isURI_total:
  "(\<exists>b. isURI URL something = Returned b)
   \<and> (isURI URL something = Returned True) = (\<exists>u. URL something = Returned u)
   \<and> (isURI URL something = Returned False) = (\<exists>err. URL something = Thrown err)"
  by (cases "URL something") (auto simp: isURI_def)

theorem isURI_total_witness:
  "isURI example_URL ''https://frankkmods.com/#/contact'' = Returned True
   \<and> isURI example_URL ''not a uri'' = Returned False"
  using isURI_total [of example_URL "''https://frankkmods.com/#/contact''"]
    isURI_total [of example_URL "''not a uri''"]
  by (simp add: example_URL_def)

end
